theory Spec2Isabelle
  imports Main
begin

section \<open>ContestGuard relay server: the session registry of \<open>server/server.py\<close>\<close>

text \<open>
  The server keeps one module-level dictionary \<open>SESSIONS\<close> from session identifiers to
  session dictionaries and exposes it through Flask routes. Every route is modelled as a
  function from the registry, the path parameter, the request and the clock reading to
  the outcome of the request and the registry afterwards. The clock (\<open>now_iso()\<close>) and the
  random generators (\<open>uuid.uuid4\<close>, \<open>secrets.token_hex\<close>, \<open>secrets.randbelow\<close>) are inputs
  of the model.
\<close>

subsection \<open>JSON values and the Python operations applied to them\<close>

text \<open>
  A decoded JSON document, as \<open>request.get_json\<close> returns it. JSON numbers are restricted
  to integers. An object is the association list of a Python \<open>dict\<close>, in insertion order.
  A string is a list of characters with code points below 256; the ASCII ones are those
  below 128.
\<close>

datatype json =
    JNull
  | JBool bool
  | JInt int
  | JStr string
  | JList "json list"
  | JObj "(string \<times> json) list"

text \<open>Python truthiness, as used by \<open>x or y\<close> and \<open>not x\<close>.\<close>

fun truthy :: "json \<Rightarrow> bool" where
  "truthy JNull = False"
| "truthy (JBool b) = b"
| "truthy (JInt n) = (n \<noteq> 0)"
| "truthy (JStr s) = (s \<noteq> [])"
| "truthy (JList xs) = (xs \<noteq> [])"
| "truthy (JObj kvs) = (kvs \<noteq> [])"

datatype py_exception = AttributeError | TypeError

text \<open>
  A request ends early either through \<open>abort(code, description=...)\<close> or through a Python
  exception that no handler catches (Flask answers 500).
\<close>

datatype failure = Abort nat string | Uncaught py_exception

abbreviation NotFound :: failure where
  "NotFound \<equiv> Abort 404 ''Session not found''"

abbreviation InvalidAdminToken :: failure where
  "InvalidAdminToken \<equiv> Abort 403 ''Invalid admin token''"

abbreviation InvalidSessionCode :: failure where
  "InvalidSessionCode \<equiv> Abort 403 ''Invalid session code''"

abbreviation InvalidInput :: failure where
  "InvalidInput \<equiv> Abort 400 ''allowed_ips must be a list''"

text \<open>
  The 400 that \<open>request.json\<close> raises itself when the body of a JSON request does not
  decode (Werkzeug's \<open>BadRequest\<close> with its default description).
\<close>

abbreviation JsonDecodeFailed :: failure where
  "JsonDecodeFailed \<equiv>
     Abort 400 ''The browser (or proxy) sent a request that this server could not understand.''"

fun http_status :: "failure \<Rightarrow> nat" where
  "http_status (Abort code d) = code"
| "http_status (Uncaught e) = 500"

text \<open>\<open>d.get(k, default)\<close>: only a dict has the method.\<close>

fun dict_get :: "json \<Rightarrow> string \<Rightarrow> json \<Rightarrow> failure + json" where
  "dict_get (JObj kvs) k d = Inr (case map_of kvs k of None \<Rightarrow> d | Some v \<Rightarrow> v)"
| "dict_get j k d = Inl (Uncaught AttributeError)"

subsubsection \<open>\<open>str()\<close> of a decoded JSON value\<close>

definition digit_char :: "nat \<Rightarrow> char" where
  "digit_char n = ''0123456789abcdef'' ! (n mod 16)"

fun nat_str :: "nat \<Rightarrow> string" where
  "nat_str n = (if n < 10 then [digit_char n] else nat_str (n div 10) @ [digit_char (n mod 10)])"

declare nat_str.simps [simp del]

definition int_str :: "int \<Rightarrow> string" where
  "int_str i = (if i < 0 then CHR ''-'' # nat_str (nat (- i)) else nat_str (nat i))"

text \<open>
  \<open>repr\<close> of a Python string whose code points lie below 256: the quote is \<open>'\<close> unless the
  string holds a \<open>'\<close> and no \<open>"\<close>; the quote and the backslash are escaped, tab, newline
  and carriage return get their letters, and every other non-printable code point is
  written \<open>\xhh\<close>.
\<close>

definition repr_quote :: "string \<Rightarrow> char" where
  "repr_quote s = (if CHR 0x27 \<in> set s \<and> CHR 0x22 \<notin> set s then CHR 0x22 else CHR 0x27)"

definition repr_char :: "char \<Rightarrow> char \<Rightarrow> string" where
  "repr_char q c =
     (let n = (of_char c :: nat) in
      if c = q \<or> n = 0x5C then [CHR 0x5C, c]
      else if n = 9 then [CHR 0x5C, CHR ''t'']
      else if n = 10 then [CHR 0x5C, CHR ''n'']
      else if n = 13 then [CHR 0x5C, CHR ''r'']
      else if n < 32 \<or> (127 \<le> n \<and> n \<le> 160) \<or> n = 173
        then [CHR 0x5C, CHR ''x'', digit_char (n div 16), digit_char (n mod 16)]
      else [c])"

definition repr_str :: "string \<Rightarrow> string" where
  "repr_str s = (let q = repr_quote s in q # concat (map (repr_char q) s) @ [q])"

fun join :: "string \<Rightarrow> string list \<Rightarrow> string" where
  "join sep [] = []"
| "join sep [x] = x"
| "join sep (x # y # ys) = x @ sep @ join sep (y # ys)"

fun py_repr :: "json \<Rightarrow> string" where
  "py_repr JNull = ''None''"
| "py_repr (JBool b) = (if b then ''True'' else ''False'')"
| "py_repr (JInt n) = int_str n"
| "py_repr (JStr s) = repr_str s"
| "py_repr (JList xs) = ''['' @ join '', '' (map py_repr xs) @ '']''"
| "py_repr (JObj kvs) =
     ''{'' @ join '', '' (map (\<lambda>kv. repr_str (fst kv) @ '': '' @ py_repr (snd kv)) kvs) @ ''}''"

fun py_str :: "json \<Rightarrow> string" where
  "py_str (JStr s) = s"
| "py_str j = py_repr j"

text \<open>
  \<open>secrets.compare_digest\<close> on two \<open>str\<close> arguments: a \<open>TypeError\<close> when either holds a
  non-ASCII character, their equality otherwise.
\<close>

definition is_ascii :: "string \<Rightarrow> bool" where
  "is_ascii s = list_all (\<lambda>c. (of_char c :: nat) < 128) s"

definition compare_digest :: "string \<Rightarrow> string \<Rightarrow> failure + bool" where
  "compare_digest a b =
     (if is_ascii a \<and> is_ascii b then Inr (a = b) else Inl (Uncaught TypeError))"

subsection \<open>Requests\<close>

text \<open>
  What the routes read of a Flask request: the headers and the query parameters by name,
  whether the content type announces JSON (\<open>request.is_json\<close>), and the decoded body
  (\<open>None\<close> when the body does not decode).
\<close>

record request =
  headers :: "string \<rightharpoonup> string"
  args :: "string \<rightharpoonup> string"
  is_json :: bool
  body :: "json option"

text \<open>\<open>request.get_json(silent=True) or {}\<close>\<close>

definition get_json_or_empty :: "request \<Rightarrow> json" where
  "get_json_or_empty req =
     (if is_json req then
        (case body req of None \<Rightarrow> JObj [] | Some j \<Rightarrow> if truthy j then j else JObj [])
      else JObj [])"

text \<open>\<open>request.json\<close>, evaluated only where \<open>request.is_json\<close> holds.\<close>

definition request_json :: "request \<Rightarrow> failure + json" where
  "request_json req = (case body req of None \<Rightarrow> Inl JsonDecodeFailed | Some j \<Rightarrow> Inr j)"

text \<open>\<open>d.get(k, "")\<close> on headers and query parameters.\<close>

definition get_or_empty :: "(string \<rightharpoonup> string) \<Rightarrow> string \<Rightarrow> string" where
  "get_or_empty m k = (case m k of None \<Rightarrow> [] | Some v \<Rightarrow> v)"

subsection \<open>Session records and the registry\<close>

text \<open>
  A log entry and a session are dictionaries with fixed keys, built only by \<open>post_log\<close> and
  \<open>create_session\<close>. The key \<open>ips_updated\<close> is absent until the first policy push, so it is
  an option; \<open>ended_at\<close> holds \<open>None\<close> until the session ends.
\<close>

record log_entry =
  timestamp :: string
  student_id :: json
  hostname :: json
  event :: json
  detail :: json

record session =
  session_id :: string
  session_code :: string
  admin_token :: string
  contest_name :: json
  allowed_ips :: "json list"
  status :: string
  created_at :: string
  ended_at :: "string option"
  logs :: "log_entry list"
  student_count :: int
  ips_updated :: "string option"

type_synonym sessions = "string \<rightharpoonup> session"

type_synonym outcome = "(failure + json) \<times> sessions"

text \<open>
  \<open>get_session\<close>: \<open>SESSIONS.get(session_id)\<close>, with 404 when there is no record (a stored
  record is never an empty dictionary, so \<open>not s\<close> holds only for \<open>None\<close>).
\<close>

definition get_session :: "sessions \<Rightarrow> string \<Rightarrow> failure + session" where
  "get_session S sid = (case S sid of None \<Rightarrow> Inl NotFound | Some s \<Rightarrow> Inr s)"

text \<open>
  \<open>require_admin\<close>. Python reads the assignment as
  \<open>(header or request.json.get("admin_token", "")) if request.is_json else args.get("admin_token", "")\<close>:
  the conditional expression binds weaker than \<open>or\<close>.
\<close>

definition admin_token_presented :: "request \<Rightarrow> failure + json" where
  "admin_token_presented req =
     (if is_json req then
        (case headers req ''X-Admin-Token'' of
           None \<Rightarrow>
             (case request_json req of Inl e \<Rightarrow> Inl e | Inr j \<Rightarrow> dict_get j ''admin_token'' (JStr []))
         | Some h \<Rightarrow>
             if h \<noteq> [] then Inr (JStr h)
             else (case request_json req of Inl e \<Rightarrow> Inl e
                   | Inr j \<Rightarrow> dict_get j ''admin_token'' (JStr [])))
      else Inr (JStr (get_or_empty (args req) ''admin_token'')))"

definition require_admin :: "session \<Rightarrow> request \<Rightarrow> failure + unit" where
  "require_admin s req =
     (case admin_token_presented req of
        Inl e \<Rightarrow> Inl e
      | Inr token \<Rightarrow>
          (case compare_digest (py_str token) (admin_token s) of
             Inl e \<Rightarrow> Inl e
           | Inr ok \<Rightarrow> if ok then Inr () else Inl InvalidAdminToken))"

definition session_code_presented :: "request \<Rightarrow> string" where
  "session_code_presented req =
     (case headers req ''X-Session-Code'' of
        None \<Rightarrow> get_or_empty (args req) ''code''
      | Some h \<Rightarrow> if h \<noteq> [] then h else get_or_empty (args req) ''code'')"

definition require_code :: "session \<Rightarrow> request \<Rightarrow> failure + unit" where
  "require_code s req =
     (case compare_digest (session_code_presented req) (session_code s) of
        Inl e \<Rightarrow> Inl e
      | Inr ok \<Rightarrow> if ok then Inr () else Inl InvalidSessionCode)"

subsection \<open>Routes\<close>

text \<open>
  \<open>create_session\<close>; \<open>sid\<close>, \<open>tok\<close> and \<open>code\<close> are the three generated values. The new
  dictionary is stored under \<open>sid\<close> whatever the registry held there.
\<close>

definition create_session :: "string \<Rightarrow> string \<Rightarrow> string \<Rightarrow> sessions \<Rightarrow> request \<Rightarrow> string \<Rightarrow> outcome" where
  "create_session sid tok code S req now =
     (case dict_get (get_json_or_empty req) ''contest_name'' (JStr ''Contest'') of
        Inl e \<Rightarrow> (Inl e, S)
      | Inr name \<Rightarrow>
          (Inr (JObj [(''session_id'', JStr sid), (''session_code'', JStr code),
                      (''admin_token'', JStr tok),
                      (''message'', JStr ''Session created. Share session_id + session_code with students via QR.'')]),
           S(sid \<mapsto> \<lparr>session_id = sid, session_code = code, admin_token = tok,
                      contest_name = name, allowed_ips = [], status = ''active'',
                      created_at = now, ended_at = None, logs = [], student_count = 0,
                      ips_updated = None\<rparr>)))"

definition set_ips :: "sessions \<Rightarrow> string \<Rightarrow> request \<Rightarrow> string \<Rightarrow> outcome" where
  "set_ips S sid req now =
     (case get_session S sid of
        Inl e \<Rightarrow> (Inl e, S)
      | Inr s \<Rightarrow>
          (case require_admin s req of
             Inl e \<Rightarrow> (Inl e, S)
           | Inr u \<Rightarrow>
               (case dict_get (get_json_or_empty req) ''allowed_ips'' (JList []) of
                  Inl e \<Rightarrow> (Inl e, S)
                | Inr ips \<Rightarrow>
                    (case ips of
                       JList xs \<Rightarrow>
                         (Inr (JObj [(''message'', JStr ''IPs updated''),
                                     (''count'', JInt (int (length xs))),
                                     (''allowed_ips'', JList xs)]),
                          S(sid \<mapsto> s\<lparr>allowed_ips := xs, ips_updated := Some now\<rparr>))
                     | _ \<Rightarrow> (Inl InvalidInput, S)))))"

text \<open>\<open>s.get("ips_updated", s["created_at"])\<close>\<close>

definition updated_at :: "session \<Rightarrow> string" where
  "updated_at s = (case ips_updated s of None \<Rightarrow> created_at s | Some t \<Rightarrow> t)"

definition get_ips :: "sessions \<Rightarrow> string \<Rightarrow> request \<Rightarrow> outcome" where
  "get_ips S sid req =
     (case get_session S sid of
        Inl e \<Rightarrow> (Inl e, S)
      | Inr s \<Rightarrow>
          (case require_code s req of
             Inl e \<Rightarrow> (Inl e, S)
           | Inr u \<Rightarrow>
               (Inr (JObj [(''session_id'', JStr sid),
                           (''contest_name'', contest_name s),
                           (''allowed_ips'', JList (allowed_ips s)),
                           (''status'', JStr (status s)),
                           (''updated_at'', JStr (updated_at s))]),
                S(sid \<mapsto> s\<lparr>student_count := student_count s + 1\<rparr>))))"

definition get_status :: "sessions \<Rightarrow> string \<Rightarrow> request \<Rightarrow> outcome" where
  "get_status S sid req =
     (case get_session S sid of
        Inl e \<Rightarrow> (Inl e, S)
      | Inr s \<Rightarrow>
          (case require_code s req of
             Inl e \<Rightarrow> (Inl e, S)
           | Inr u \<Rightarrow>
               (Inr (JObj [(''status'', JStr (status s)),
                           (''allowed_ips'', JList (allowed_ips s)),
                           (''updated_at'', JStr (updated_at s))]),
                S)))"

definition end_session :: "sessions \<Rightarrow> string \<Rightarrow> request \<Rightarrow> string \<Rightarrow> outcome" where
  "end_session S sid req now =
     (case get_session S sid of
        Inl e \<Rightarrow> (Inl e, S)
      | Inr s \<Rightarrow>
          (case require_admin s req of
             Inl e \<Rightarrow> (Inl e, S)
           | Inr u \<Rightarrow>
               (Inr (JObj [(''message'', JStr ''Session ended''), (''ended_at'', JStr now)]),
                S(sid \<mapsto> s\<lparr>status := ''ended'', ended_at := Some now\<rparr>))))"

text \<open>The slice \<open>xs[-1000:]\<close>: the last 1000 elements, all of them when there are fewer.\<close>

definition last_1000 :: "'a list \<Rightarrow> 'a list" where
  "last_1000 xs = drop (length xs - 1000) xs"

definition append_log :: "log_entry list \<Rightarrow> log_entry \<Rightarrow> log_entry list" where
  "append_log ls e = (let ls' = ls @ [e] in if length ls' > 1000 then last_1000 ls' else ls')"

text \<open>The dictionary literal \<open>entry\<close> of \<open>post_log\<close>, its four \<open>data.get\<close> in order.\<close>

definition build_entry :: "json \<Rightarrow> string \<Rightarrow> failure + log_entry" where
  "build_entry data now =
     (case dict_get data ''student_id'' (JStr ''unknown'') of
        Inl e \<Rightarrow> Inl e
      | Inr sidv \<Rightarrow>
     (case dict_get data ''hostname'' (JStr []) of
        Inl e \<Rightarrow> Inl e
      | Inr hostv \<Rightarrow>
     (case dict_get data ''event'' (JStr []) of
        Inl e \<Rightarrow> Inl e
      | Inr eventv \<Rightarrow>
     (case dict_get data ''detail'' (JStr []) of
        Inl e \<Rightarrow> Inl e
      | Inr detailv \<Rightarrow>
          Inr \<lparr>timestamp = now, student_id = sidv, hostname = hostv,
               event = eventv, detail = detailv\<rparr>))))"

definition post_log :: "sessions \<Rightarrow> string \<Rightarrow> request \<Rightarrow> string \<Rightarrow> outcome" where
  "post_log S sid req now =
     (case get_session S sid of
        Inl e \<Rightarrow> (Inl e, S)
      | Inr s \<Rightarrow>
          (let data = get_json_or_empty req in
           case require_code s req of
             Inl e \<Rightarrow> (Inl e, S)
           | Inr u \<Rightarrow>
               (case build_entry data now of
                  Inl e \<Rightarrow> (Inl e, S)
                | Inr entry \<Rightarrow>
                    (Inr (JObj [(''message'', JStr ''Logged'')]),
                     S(sid \<mapsto> s\<lparr>logs := append_log (logs s) entry\<rparr>)))))"

text \<open>The dictionaries as \<open>jsonify\<close> receives them.\<close>

definition entry_json :: "log_entry \<Rightarrow> json" where
  "entry_json e =
     JObj [(''timestamp'', JStr (timestamp e)), (''student_id'', student_id e),
           (''hostname'', hostname e), (''event'', event e), (''detail'', detail e)]"

definition opt_str_json :: "string option \<Rightarrow> json" where
  "opt_str_json t = (case t of None \<Rightarrow> JNull | Some x \<Rightarrow> JStr x)"

definition session_items :: "session \<Rightarrow> (string \<times> json) list" where
  "session_items s =
     [(''session_id'', JStr (session_id s)),
      (''session_code'', JStr (session_code s)),
      (''admin_token'', JStr (admin_token s)),
      (''contest_name'', contest_name s),
      (''allowed_ips'', JList (allowed_ips s)),
      (''status'', JStr (status s)),
      (''created_at'', JStr (created_at s)),
      (''ended_at'', opt_str_json (ended_at s)),
      (''logs'', JList (map entry_json (logs s))),
      (''student_count'', JInt (student_count s))]
     @ (case ips_updated s of None \<Rightarrow> [] | Some t \<Rightarrow> [(''ips_updated'', JStr t)])"

definition get_logs :: "sessions \<Rightarrow> string \<Rightarrow> request \<Rightarrow> outcome" where
  "get_logs S sid req =
     (case get_session S sid of
        Inl e \<Rightarrow> (Inl e, S)
      | Inr s \<Rightarrow>
          (case require_admin s req of
             Inl e \<Rightarrow> (Inl e, S)
           | Inr u \<Rightarrow>
               (Inr (JObj [(''session_id'', JStr sid),
                           (''contest_name'', contest_name s),
                           (''student_count'', JInt (student_count s)),
                           (''log_count'', JInt (int (length (logs s)))),
                           (''logs'', JList (map entry_json (logs s)))]),
                S)))"

definition get_info :: "sessions \<Rightarrow> string \<Rightarrow> request \<Rightarrow> outcome" where
  "get_info S sid req =
     (case get_session S sid of
        Inl e \<Rightarrow> (Inl e, S)
      | Inr s \<Rightarrow>
          (case require_admin s req of
             Inl e \<Rightarrow> (Inl e, S)
           | Inr u \<Rightarrow>
               (Inr (JObj (filter (\<lambda>kv. fst kv \<noteq> ''admin_token'') (session_items s))), S)))"

subsection \<open>Dispatch and runs\<close>

datatype route = SetIps | GetIps | GetStatus | EndSession | PostLog | GetLogs | GetInfo

fun dispatch :: "route \<Rightarrow> sessions \<Rightarrow> string \<Rightarrow> request \<Rightarrow> string \<Rightarrow> outcome" where
  "dispatch SetIps S sid req now = set_ips S sid req now"
| "dispatch GetIps S sid req now = get_ips S sid req"
| "dispatch GetStatus S sid req now = get_status S sid req"
| "dispatch EndSession S sid req now = end_session S sid req now"
| "dispatch PostLog S sid req now = post_log S sid req now"
| "dispatch GetLogs S sid req now = get_logs S sid req"
| "dispatch GetInfo S sid req now = get_info S sid req"

text \<open>
  One inbound call: a creation with the three values the generators return, or a
  session-scoped route with its path parameter; each with its request and clock reading.
\<close>

datatype call =
    Create string string string request string
  | Scoped route string request string

fun step :: "sessions \<Rightarrow> call \<Rightarrow> outcome" where
  "step S (Create sid tok code req now) = create_session sid tok code S req now"
| "step S (Scoped r sid req now) = dispatch r S sid req now"

fun run :: "sessions \<Rightarrow> call list \<Rightarrow> sessions" where
  "run S [] = S"
| "run S (c # cs) = run (snd (step S c)) cs"

fun results :: "sessions \<Rightarrow> call list \<Rightarrow> (failure + json) list" where
  "results S [] = []"
| "results S (c # cs) = fst (step S c) # results (snd (step S c)) cs"

definition is_ok :: "failure + json \<Rightarrow> bool" where
  "is_ok res = (case res of Inl e \<Rightarrow> False | Inr j \<Rightarrow> True)"

subsection \<open>Responses on the wire\<close>

text \<open>
  \<open>str(e)\<close> of the exception that \<open>abort\<close> raises, and the three registered error
  handlers (404, 403, 400). Any other failure is answered by Flask's own 500 page, which
  is no JSON document.
\<close>

definition status_name :: "nat \<Rightarrow> string" where
  "status_name code =
     (if code = 404 then ''Not Found'' else if code = 403 then ''Forbidden''
      else if code = 400 then ''Bad Request'' else ''Unknown Error'')"

fun error_handler :: "failure \<Rightarrow> json option" where
  "error_handler (Abort code d) =
     (if code = 404 \<or> code = 403 \<or> code = 400
      then Some (JObj [(''error'', JStr (nat_str code @ '' '' @ status_name code @ '': '' @ d))])
      else None)"
| "error_handler (Uncaught e) = None"

definition respond :: "failure + json \<Rightarrow> json option" where
  "respond res = (case res of Inl e \<Rightarrow> error_handler e | Inr j \<Rightarrow> Some j)"



text \<open>Whether a key occurs in a JSON document, at any depth.\<close>

fun mentions :: "string \<Rightarrow> json \<Rightarrow> bool" where
  "mentions k (JList xs) = list_ex (mentions k) xs"
| "mentions k (JObj kvs) = list_ex (\<lambda>kv. fst kv = k \<or> mentions k (snd kv)) kvs"
| "mentions k j = False"

text \<open>
  The values of a record that clients supplied: the contest name (\<open>create_session\<close>), the
  policy (\<open>set_ips\<close>) and the four free fields of every log entry (\<open>post_log\<close>).
\<close>

definition client_values :: "session \<Rightarrow> json list" where
  "client_values s =
     contest_name s # allowed_ips s @
     concat (map (\<lambda>e. [student_id e, hostname e, event e, detail e]) (logs s))"

text \<open>\<open>data.get("allowed_ips", [])\<close> of \<open>set_ips\<close>, the one request value a response echoes.\<close>

definition ips_payload :: "request \<Rightarrow> failure + json" where
  "ips_payload req = dict_get (get_json_or_empty req) ''allowed_ips'' (JList [])"

text \<open>
  Some client-supplied value that a response to this call may echo (a stored one of the
  record, or the policy payload of the request) mentions the key.
\<close>

definition echoes_key :: "string \<Rightarrow> sessions \<Rightarrow> string \<Rightarrow> request \<Rightarrow> bool" where
  "echoes_key k S sid req =
     ((case S sid of None \<Rightarrow> False | Some s \<Rightarrow> list_ex (mentions k) (client_values s)) \<or>
      (case ips_payload req of Inl e \<Rightarrow> False | Inr v \<Rightarrow> mentions k v))"

definition response_mentions :: "string \<Rightarrow> failure + json \<Rightarrow> bool" where
  "response_mentions k res = (case respond res of None \<Rightarrow> False | Some j \<Rightarrow> mentions k j)"

subsection \<open>Vocabulary for runs\<close>

fun is_poll :: "string \<Rightarrow> call \<Rightarrow> bool" where
  "is_poll sid (Scoped GetStatus sid' req now) = (sid' = sid)"
| "is_poll sid (Scoped GetIps sid' req now) = (sid' = sid)"
| "is_poll sid c = False"

fun is_fetch :: "call \<Rightarrow> bool" where
  "is_fetch (Scoped GetIps sid req now) = True"
| "is_fetch c = False"

fun is_status_poll :: "call \<Rightarrow> bool" where
  "is_status_poll (Scoped GetStatus sid req now) = True"
| "is_status_poll c = False"

fun creates_id :: "string \<Rightarrow> call \<Rightarrow> bool" where
  "creates_id sid (Create sid' tok code req now) = (sid' = sid)"
| "creates_id sid c = False"

text \<open>A series of log posts to one session, each with its request and clock reading.\<close>

definition log_calls :: "string \<Rightarrow> (request \<times> string) list \<Rightarrow> call list" where
  "log_calls sid rs = map (\<lambda>(req, now). Scoped PostLog sid req now) rs"

text \<open>The entries these posts build, in order (none for a post whose entry fails to build).\<close>

definition posted :: "(request \<times> string) list \<Rightarrow> log_entry list" where
  "posted rs =
     concat (map (\<lambda>(req, now).
       case build_entry (get_json_or_empty req) now of Inl e \<Rightarrow> [] | Inr entry \<Rightarrow> [entry]) rs)"

subsection \<open>Sample data\<close>

definition tok0 :: string where
  "tok0 = ''0123456789abcdef0123456789abcdef0123456789abcdef''"

definition plain_request :: request where
  "plain_request = \<lparr>headers = Map.empty, args = Map.empty, is_json = False, body = None\<rparr>"

text \<open>A registry holding one freshly created session.\<close>

definition demo :: sessions where
  "demo = snd (create_session ''A1B2C3D4'' tok0 ''4821'' Map.empty plain_request
     ''2024-05-01T09:00:00Z'')"

text \<open>The admin token in the header of a request without a JSON content type.\<close>

definition admin_header_request :: request where
  "admin_header_request = plain_request\<lparr>headers := [''X-Admin-Token'' \<mapsto> tok0]\<rparr>"

text \<open>The admin token as a query parameter.\<close>

definition admin_query_request :: request where
  "admin_query_request = plain_request\<lparr>args := [''admin_token'' \<mapsto> tok0]\<rparr>"

text \<open>A JSON request with the admin token in its header and the given body.\<close>

definition admin_json_request :: "json \<Rightarrow> request" where
  "admin_json_request j =
     \<lparr>headers = [''X-Admin-Token'' \<mapsto> tok0], args = Map.empty, is_json = True, body = Some j\<rparr>"

definition student_request :: request where
  "student_request = plain_request\<lparr>headers := [''X-Session-Code'' \<mapsto> ''4821'']\<rparr>"

text \<open>The same registry after the session was ended.\<close>

definition ended_demo :: sessions where
  "ended_demo = snd (end_session demo ''A1B2C3D4'' admin_query_request ''2024-05-01T12:00:00Z'')"

text \<open>The record that the sample registry holds.\<close>

definition demo_session :: session where
  "demo_session = \<lparr>session_id = ''A1B2C3D4'', session_code = ''4821'', admin_token = tok0,
      contest_name = JStr ''Contest'', allowed_ips = [], status = ''active'',
      created_at = ''2024-05-01T09:00:00Z'', ended_at = None, logs = [], student_count = 0,
      ips_updated = None\<rparr>"

text \<open>\<open>isinstance(ips, list)\<close>\<close>

fun is_list :: "json \<Rightarrow> bool" where
  "is_list (JList xs) = True"
| "is_list j = False"

text \<open>Two policy pushes by the admin: a string for a payload, and a list of one subnet.\<close>

definition bad_ips_request :: request where
  "bad_ips_request = admin_json_request (JObj [(''allowed_ips'', JStr ''not-a-list'')])"

definition good_ips_request :: request where
  "good_ips_request = admin_json_request (JObj [(''allowed_ips'', JList [JStr ''10.0.0.0/8''])])"

text \<open>Thirteen student calls on one session: three policy fetches among ten status polls.\<close>

definition thirteen_polls :: "call list" where
  "thirteen_polls =
     (let st = Scoped GetStatus ''A1B2C3D4'' student_request ''2024-05-01T10:00:00Z'';
          fe = Scoped GetIps ''A1B2C3D4'' student_request ''2024-05-01T10:00:00Z''
      in [st, st, fe, st, st, st, st, fe, st, fe, st, st, st])"

text \<open>The \<open>i\<close>-th of a series of log posts by one student, and the entry it leaves.\<close>

definition numbered_post :: "nat \<Rightarrow> request \<times> string" where
  "numbered_post i =
     (\<lparr>headers = [''X-Session-Code'' \<mapsto> ''4821''], args = Map.empty, is_json = True,
       body = Some (JObj [(''student_id'', JStr ''s1''), (''detail'', JInt (int i))])\<rparr>,
      ''2024-05-01T10:00:00Z'')"

definition numbered_entry :: "nat \<Rightarrow> log_entry" where
  "numbered_entry i =
     \<lparr>timestamp = ''2024-05-01T10:00:00Z'', student_id = JStr ''s1'', hostname = JStr [],
      event = JStr [], detail = JInt (int i)\<rparr>"

text \<open>Posts 1 to 1500, and the entries of posts 501 to 1500.\<close>

definition numbered_posts :: "(request \<times> string) list" where
  "numbered_posts = map numbered_post [1..<1501]"

definition kept_entries :: "log_entry list" where
  "kept_entries = map numbered_entry [501..<1501]"

text \<open>A run on the ended sample session that touches it through every route but creation.\<close>

definition after_end_calls :: "call list" where
  "after_end_calls =
     [Scoped GetIps ''A1B2C3D4'' student_request ''2024-05-01T13:00:00Z'',
      Scoped SetIps ''A1B2C3D4'' good_ips_request ''2024-05-01T13:01:00Z'',
      Create ''B0B0B0B0'' tok0 ''1234'' plain_request ''2024-05-01T13:02:00Z'',
      Scoped PostLog ''A1B2C3D4'' student_request ''2024-05-01T13:03:00Z'',
      Scoped EndSession ''A1B2C3D4'' admin_query_request ''2024-05-01T13:04:00Z'',
      Scoped GetStatus ''A1B2C3D4'' student_request ''2024-05-01T13:05:00Z'',
      Scoped GetLogs ''A1B2C3D4'' admin_query_request ''2024-05-01T13:06:00Z'',
      Scoped GetInfo ''A1B2C3D4'' admin_query_request ''2024-05-01T13:07:00Z'']"




text \<open>A log post whose detail is an object with a key \<open>admin_token\<close>.\<close>

definition echo_post :: request where
  "echo_post =
     \<lparr>headers = [''X-Session-Code'' \<mapsto> ''4821''], args = Map.empty, is_json = True,
      body = Some (JObj [(''detail'', JObj [(''admin_token'', JStr ''guess'')])])\<rparr>"

section \<open>Properties\<close>

subsection \<open>The sample data and the two guards\<close>

lemmas sample_defs = demo_def ended_demo_def create_session_def tok0_def plain_request_def
  admin_header_request_def admin_query_request_def admin_json_request_def student_request_def
  get_json_or_empty_def get_or_empty_def

lemmas auth_defs = require_admin_def admin_token_presented_def require_code_def
  session_code_presented_def request_json_def compare_digest_def is_ascii_def get_session_def

lemma demo_record: "demo ''A1B2C3D4'' = Some demo_session"
  by (simp add: demo_def demo_session_def create_session_def get_json_or_empty_def
      plain_request_def)

lemma admin_query_request_ok:
  "admin_token s = tok0 \<Longrightarrow> require_admin s admin_query_request = Inr ()"
  by (simp add: sample_defs auth_defs)

lemma admin_json_request_ok:
  "admin_token s = tok0 \<Longrightarrow> require_admin s (admin_json_request j) = Inr ()"
  by (simp add: sample_defs auth_defs)

lemma student_request_ok:
  "session_code s = ''4821'' \<Longrightarrow> require_code s student_request = Inr ()"
  by (simp add: sample_defs auth_defs)

lemma ended_demo_record:
  "ended_demo ''A1B2C3D4'' =
     Some (demo_session\<lparr>status := ''ended'', ended_at := Some ''2024-05-01T12:00:00Z''\<rparr>)"
  by (simp add: ended_demo_def end_session_def get_session_def demo_record
      admin_query_request_ok demo_session_def)

text \<open>Both guards read one field of the record only.\<close>

lemma require_admin_token_only:
  "admin_token s' = admin_token s \<Longrightarrow> require_admin s' req = require_admin s req"
  by (simp add: require_admin_def cong: sum.case_cong)

lemma require_code_code_only:
  "session_code s' = session_code s \<Longrightarrow> require_code s' req = require_code s req"
  by (simp add: require_code_def)

subsection \<open>Where the admin credential is read from\<close>

text \<open>
  On a request whose content type is not JSON the header is never consulted: the
  credential is the query parameter. On a JSON request a non-empty header wins.
\<close>

lemma non_json_request_ignores_header:
  "\<not> is_json req \<Longrightarrow>
   admin_token_presented req = Inr (JStr (get_or_empty (args req) ''admin_token''))"
  by (simp add: admin_token_presented_def)

lemma header_token_accepted_with_json:
  "is_json req \<Longrightarrow> headers req ''X-Admin-Token'' = Some (admin_token s) \<Longrightarrow>
   admin_token s \<noteq> [] \<Longrightarrow> is_ascii (admin_token s) \<Longrightarrow> require_admin s req = Inr ()"
  by (simp add: require_admin_def admin_token_presented_def compare_digest_def)

text \<open>
  C1. The claim reads the admin credential from the header \<open>X-Admin-Token\<close> first, then from
  the JSON body, then from the query string, so that a header equal to the record's
  \<open>admin_token\<close> authorises whatever the content type of the request. The code does not:
  the sample session's own token, sent in the header of a request without a JSON content
  type and without a query parameter, is refused with 403 "Invalid admin token" by
  \<open>get_info\<close>, \<open>get_logs\<close> and \<open>end_session\<close>, and the registry stays as it was.
\<close>

theorem header_token_rejected_without_json:
  "map_option admin_token (demo ''A1B2C3D4'') = headers admin_header_request ''X-Admin-Token'' \<and>
   get_info demo ''A1B2C3D4'' admin_header_request = (Inl InvalidAdminToken, demo) \<and>
   get_logs demo ''A1B2C3D4'' admin_header_request = (Inl InvalidAdminToken, demo) \<and>
   end_session demo ''A1B2C3D4'' admin_header_request ''2024-05-01T12:00:00Z'' =
     (Inl InvalidAdminToken, demo)"
  by (simp add: demo_record demo_session_def admin_header_request_def plain_request_def tok0_def
      get_or_empty_def auth_defs get_info_def get_logs_def end_session_def)

subsection \<open>The student counter\<close>

lemma get_status_keeps_registry: "snd (get_status S sid req) = S"
  by (simp add: get_status_def split: sum.splits)

lemma get_ips_counts:
  "S sid = Some s \<Longrightarrow> is_ok (fst (get_ips S sid req)) \<Longrightarrow>
   snd (get_ips S sid req) = S(sid \<mapsto> s\<lparr>student_count := student_count s + 1\<rparr>)"
  by (simp add: get_ips_def get_session_def is_ok_def split: sum.splits)

lemma polls_count_fetches:
  "S sid = Some s \<Longrightarrow> list_all (is_poll sid) cs \<Longrightarrow> list_all is_ok (results S cs) \<Longrightarrow>
   run S cs sid = Some (s\<lparr>student_count := student_count s + int (length (filter is_fetch cs))\<rparr>)"
proof (induction cs arbitrary: S s)
  case Nil
  then show ?case by simp
next
  case (Cons c cs)
  from Cons.prems(2) have poll: "is_poll sid c" and rest: "list_all (is_poll sid) cs" by simp_all
  from Cons.prems(3) have ok: "is_ok (fst (step S c))"
    and oks: "list_all is_ok (results (snd (step S c)) cs)" by simp_all
  from poll consider (status) req now where "c = Scoped GetStatus sid req now"
    | (fetch) req now where "c = Scoped GetIps sid req now"
    by (cases "(sid, c)" rule: is_poll.cases) auto
  then show ?case
  proof cases
    case status
    have st: "snd (step S c) = S" by (simp add: status get_status_keeps_registry)
    from Cons.IH [of S s] Cons.prems(1) rest oks st show ?thesis by (simp add: status)
  next
    case fetch
    let ?s1 = "s\<lparr>student_count := student_count s + 1\<rparr>"
    have st: "snd (step S c) = S(sid \<mapsto> ?s1)"
      using ok Cons.prems(1) by (simp add: fetch get_ips_counts)
    have oks': "list_all is_ok (results (S(sid \<mapsto> ?s1)) cs)"
      using oks by (simp only: st)
    have "run (S(sid \<mapsto> ?s1)) cs sid =
        Some (?s1\<lparr>student_count := student_count ?s1 + int (length (filter is_fetch cs))\<rparr>)"
      using rest oks' by (intro Cons.IH [of "S(sid \<mapsto> ?s1)" ?s1]) (simp_all only: fun_upd_same)
    moreover from st have "snd (get_ips S sid req) = S(sid \<mapsto> ?s1)" by (simp add: fetch)
    ultimately show ?thesis by (simp add: fetch add.assoc)
  qed
qed

text \<open>
  C2. \<open>get_status\<close> leaves the whole registry, hence \<open>student_count\<close>, as it was; a
  successful \<open>get_ips\<close> changes the record in \<open>student_count\<close> only, adding 1. So after any
  run of successful status polls and policy fetches on one session, in any order, the
  counter has grown by the number of fetches and the record is otherwise the same; from a
  counter of 0, ten polls and three fetches leave 3.
\<close>

theorem student_count_counts_policy_fetches:
  "snd (get_status S sid req) = S \<and>
   (\<forall>s. S sid = Some s \<and> is_ok (fst (get_ips S sid req)) \<longrightarrow>
      snd (get_ips S sid req) = S(sid \<mapsto> s\<lparr>student_count := student_count s + 1\<rparr>)) \<and>
   (\<forall>s. S sid = Some s \<and> list_all (is_poll sid) cs \<and> list_all is_ok (results S cs) \<longrightarrow>
      run S cs sid =
        Some (s\<lparr>student_count := student_count s + int (length (filter is_fetch cs))\<rparr>) \<and>
      (student_count s = 0 \<and> length (filter is_status_poll cs) = 10 \<and>
       length (filter is_fetch cs) = 3 \<longrightarrow>
         map_option student_count (run S cs sid) = Some 3))"
proof (intro conjI allI impI)
  show "snd (get_status S sid req) = S"
    by (rule get_status_keeps_registry)
next
  fix s assume "S sid = Some s \<and> is_ok (fst (get_ips S sid req))"
  then show "snd (get_ips S sid req) = S(sid \<mapsto> s\<lparr>student_count := student_count s + 1\<rparr>)"
    by (simp add: get_ips_counts)
next
  fix s assume a: "S sid = Some s \<and> list_all (is_poll sid) cs \<and> list_all is_ok (results S cs)"
  then show "run S cs sid =
      Some (s\<lparr>student_count := student_count s + int (length (filter is_fetch cs))\<rparr>)"
    by (simp add: polls_count_fetches)
next
  fix s assume a: "S sid = Some s \<and> list_all (is_poll sid) cs \<and> list_all is_ok (results S cs)"
    and b: "student_count s = 0 \<and> length (filter is_status_poll cs) = 10 \<and>
      length (filter is_fetch cs) = 3"
  from a have "run S cs sid =
      Some (s\<lparr>student_count := student_count s + int (length (filter is_fetch cs))\<rparr>)"
    by (simp add: polls_count_fetches)
  with b show "map_option student_count (run S cs sid) = Some 3"
    by simp
qed

lemma thirteen_polls_ok: "list_all is_ok (results demo thirteen_polls)"
  by (simp add: thirteen_polls_def Let_def get_status_def get_ips_def get_session_def demo_record
      demo_session_def student_request_ok is_ok_def)

text \<open>The sample run: ten polls and three fetches, interleaved, on the fresh session.\<close>

theorem student_count_counts_policy_fetches_witness:
  "demo ''A1B2C3D4'' = Some demo_session \<and>
   list_all (is_poll ''A1B2C3D4'') thirteen_polls \<and>
   list_all is_ok (results demo thirteen_polls) \<and>
   student_count demo_session = 0 \<and>
   length (filter is_status_poll thirteen_polls) = 10 \<and>
   length (filter is_fetch thirteen_polls) = 3 \<and>
   map_option student_count (run demo thirteen_polls ''A1B2C3D4'') = Some 3"
proof -
  have polls: "list_all (is_poll ''A1B2C3D4'') thirteen_polls"
    by (simp add: thirteen_polls_def Let_def)
  have zero: "student_count demo_session = 0" by (simp add: demo_session_def)
  have ten: "length (filter is_status_poll thirteen_polls) = 10"
    by (simp add: thirteen_polls_def Let_def)
  have three: "length (filter is_fetch thirteen_polls) = 3"
    by (simp add: thirteen_polls_def Let_def)
  note t = student_count_counts_policy_fetches [where S = demo and sid = "''A1B2C3D4''"
      and cs = thirteen_polls]
  from t demo_record polls thirteen_polls_ok zero ten three
  have "map_option student_count (run demo thirteen_polls ''A1B2C3D4'') = Some 3"
    by blast
  with demo_record polls thirteen_polls_ok zero ten three show ?thesis by blast
qed

subsection \<open>The log window\<close>

lemma append_log_is_last_1000: "append_log ls e = last_1000 (ls @ [e])"
  by (simp add: append_log_def last_1000_def Let_def)

lemma last_1000_short: "length xs \<le> 1000 \<Longrightarrow> last_1000 xs = xs"
  by (simp add: last_1000_def)

lemma length_last_1000: "length (last_1000 xs) \<le> 1000"
  by (simp add: last_1000_def)

lemma last_1000_snoc: "last_1000 (last_1000 xs @ [e]) = last_1000 (xs @ [e])"
proof (cases "length xs \<le> 1000")
  case True
  then show ?thesis by (simp add: last_1000_short)
next
  case False
  then have "length xs - (length xs - 1000 + 999) + (length xs - 1000) = length xs - 999"
    by arith
  with False show ?thesis by (simp add: last_1000_def)
qed

lemma foldl_append_log:
  "length ls \<le> 1000 \<Longrightarrow> foldl append_log ls es = last_1000 (ls @ es)"
proof (induction es rule: rev_induct)
  case Nil
  then show ?case by (simp add: last_1000_short)
next
  case (snoc e es)
  then show ?case
    by (simp add: append_log_is_last_1000 last_1000_snoc flip: append_assoc)
qed

lemma post_log_appends:
  "S sid = Some s \<Longrightarrow> is_ok (fst (post_log S sid req now)) \<Longrightarrow>
   \<exists>entry. build_entry (get_json_or_empty req) now = Inr entry \<and>
     snd (post_log S sid req now) = S(sid \<mapsto> s\<lparr>logs := append_log (logs s) entry\<rparr>)"
  by (auto simp: post_log_def get_session_def is_ok_def Let_def split: sum.splits)

lemma posts_accumulate:
  "S sid = Some s \<Longrightarrow> list_all is_ok (results S (log_calls sid rs)) \<Longrightarrow>
   run S (log_calls sid rs) sid = Some (s\<lparr>logs := foldl append_log (logs s) (posted rs)\<rparr>) \<and>
   map Inr (posted rs) = map (\<lambda>(req, now). build_entry (get_json_or_empty req) now) rs"
proof (induction rs arbitrary: S s)
  case Nil
  then show ?case by (simp add: log_calls_def posted_def)
next
  case (Cons r rs)
  obtain req now where r: "r = (req, now)" by (cases r)
  from Cons.prems(2) have ok: "is_ok (fst (post_log S sid req now))"
    and oks: "list_all is_ok (results (snd (post_log S sid req now)) (log_calls sid rs))"
    by (simp_all add: log_calls_def r)
  from post_log_appends [OF Cons.prems(1) ok] obtain entry where
    e: "build_entry (get_json_or_empty req) now = Inr entry" and
    st: "snd (post_log S sid req now) = S(sid \<mapsto> s\<lparr>logs := append_log (logs s) entry\<rparr>)"
    by blast
  let ?s1 = "s\<lparr>logs := append_log (logs s) entry\<rparr>"
  have ih: "run (S(sid \<mapsto> ?s1)) (log_calls sid rs) sid =
        Some (?s1\<lparr>logs := foldl append_log (logs ?s1) (posted rs)\<rparr>) \<and>
      map Inr (posted rs) = map (\<lambda>(req, now). build_entry (get_json_or_empty req) now) rs"
    using oks by (intro Cons.IH [of "S(sid \<mapsto> ?s1)" ?s1]) (simp_all only: st fun_upd_same)
  have p: "posted ((req, now) # rs) = entry # posted rs" by (simp add: posted_def e)
  have c: "log_calls sid ((req, now) # rs) = Scoped PostLog sid req now # log_calls sid rs"
    by (simp add: log_calls_def)
  from ih show ?case by (simp add: p c st r e)
qed

text \<open>
  C3. Take a session holding at most 1000 log entries (every session does: it starts with
  none) and any series of successful posts to it. Each post contributes the one entry it
  builds, and afterwards the list holds the last 1000 entries of the old list followed by
  the new entries, in that order, so never more than 1000. After 1500 posts to a session
  without entries the list is exactly the entries of posts 501 to 1500.
\<close>

theorem logs_keep_last_1000:
  assumes "S sid = Some s" and "length (logs s) \<le> 1000"
    and "list_all is_ok (results S (log_calls sid rs))"
  shows "\<exists>s'. run S (log_calls sid rs) sid = Some s' \<and>
           map Inr (posted rs) = map (\<lambda>(req, now). build_entry (get_json_or_empty req) now) rs \<and>
           logs s' = last_1000 (logs s @ posted rs) \<and>
           length (logs s') \<le> 1000 \<and>
           (logs s = [] \<and> length rs = 1500 \<longrightarrow>
              logs s' = drop 500 (posted rs) \<and> length (logs s') = 1000)"
proof -
  from posts_accumulate [OF assms(1) assms(3)]
  have r: "run S (log_calls sid rs) sid = Some (s\<lparr>logs := foldl append_log (logs s) (posted rs)\<rparr>)"
    and p: "map Inr (posted rs) = map (\<lambda>(req, now). build_entry (get_json_or_empty req) now) rs"
    by simp_all
  from p have len: "length (posted rs) = length rs"
    by (metis length_map)
  have l: "foldl append_log (logs s) (posted rs) = last_1000 (logs s @ posted rs)"
    using assms(2) by (rule foldl_append_log)
  show ?thesis
    using r p l len by (auto simp: length_last_1000) (simp_all add: last_1000_def)
qed

text \<open>Posts that pass the code check and carry a JSON object (or nothing) all succeed.\<close>

lemma post_logs_all_ok:
  "S sid = Some s \<Longrightarrow>
   list_all (\<lambda>(req, now). require_code s req = Inr () \<and>
      (\<exists>entry. build_entry (get_json_or_empty req) now = Inr entry)) rs \<Longrightarrow>
   list_all is_ok (results S (log_calls sid rs))"
proof (induction rs arbitrary: S s)
  case Nil
  then show ?case by (simp add: log_calls_def)
next
  case (Cons r rs)
  obtain req now where r: "r = (req, now)" by (cases r)
  from Cons.prems(2) r obtain entry where code: "require_code s req = Inr ()"
    and e: "build_entry (get_json_or_empty req) now = Inr entry"
    and rest: "list_all (\<lambda>(req, now). require_code s req = Inr () \<and>
      (\<exists>entry. build_entry (get_json_or_empty req) now = Inr entry)) rs"
    by auto
  let ?s1 = "s\<lparr>logs := append_log (logs s) entry\<rparr>"
  have out: "post_log S sid req now =
      (Inr (JObj [(''message'', JStr ''Logged'')]), S(sid \<mapsto> ?s1))"
    using Cons.prems(1) code e by (simp add: post_log_def get_session_def)
  have same: "\<And>q. require_code ?s1 q = require_code s q"
    by (rule require_code_code_only) simp
  have "list_all is_ok (results (S(sid \<mapsto> ?s1)) (log_calls sid rs))"
    using rest by (intro Cons.IH [of "S(sid \<mapsto> ?s1)" ?s1]) (simp_all only: fun_upd_same same)
  moreover have "log_calls sid ((req, now) # rs) = Scoped PostLog sid req now # log_calls sid rs"
    by (simp add: log_calls_def)
  moreover have "is_ok (Inr (JObj [(''message'', JStr ''Logged'')]))"
    by (simp add: is_ok_def)
  ultimately show ?case by (simp add: r out)
qed

lemma posted_numbered: "posted (map numbered_post xs) = map numbered_entry xs"
  by (induction xs)
     (simp_all add: posted_def numbered_post_def numbered_entry_def build_entry_def
        get_json_or_empty_def)

lemma numbered_posts_ok:
  "list_all is_ok (results demo (log_calls ''A1B2C3D4'' (map numbered_post xs)))"
proof (rule post_logs_all_ok [of demo "''A1B2C3D4''" demo_session])
  show "demo ''A1B2C3D4'' = Some demo_session" by (rule demo_record)
  show "list_all (\<lambda>(req, now). require_code demo_session req = Inr () \<and>
      (\<exists>entry. build_entry (get_json_or_empty req) now = Inr entry)) (map numbered_post xs)"
    by (simp add: list_all_iff numbered_post_def demo_session_def auth_defs build_entry_def
        get_json_or_empty_def)
qed

lemma drop_posted_numbered:
  "drop k (posted (map numbered_post [a..<b])) = map numbered_entry [a + k..<b]"
  by (simp add: posted_numbered drop_map add.commute)

lemma drop_numbered_posts: "drop 500 (posted numbered_posts) = kept_entries"
proof -
  have "(1::nat) + 500 = 501" by simp
  with drop_posted_numbered [of 500 1 1501] show ?thesis
    by (simp only: numbered_posts_def kept_entries_def)
qed

lemma length_numbered_posts: "length numbered_posts = 1500"
proof -
  have "length (map numbered_post [a..<b]) = b - a" for a b by simp
  from this [of 1 1501] show ?thesis by (simp only: numbered_posts_def)
qed

lemma length_kept_entries: "length kept_entries = 1000"
proof -
  have "length (map numbered_entry [a..<b]) = b - a" for a b by simp
  from this [of 501 1501] show ?thesis by (simp only: kept_entries_def)
qed

text \<open>The sample run: posts numbered 1 to 1500 on the fresh session leave 501 to 1500.\<close>

theorem logs_keep_last_1000_witness:
  "demo ''A1B2C3D4'' = Some demo_session \<and>
   length (logs demo_session) \<le> 1000 \<and>
   list_all is_ok (results demo (log_calls ''A1B2C3D4'' numbered_posts)) \<and>
   map_option logs (run demo (log_calls ''A1B2C3D4'' numbered_posts) ''A1B2C3D4'') =
     Some kept_entries \<and>
   length numbered_posts = 1500 \<and> length kept_entries = 1000"
proof -
  have short: "length (logs demo_session) \<le> 1000" by (simp add: demo_session_def)
  have ok: "list_all is_ok (results demo (log_calls ''A1B2C3D4'' numbered_posts))"
    unfolding numbered_posts_def by (rule numbered_posts_ok)
  have empty: "logs demo_session = []" by (simp add: demo_session_def)
  from logs_keep_last_1000 [of demo "''A1B2C3D4''" demo_session numbered_posts,
      OF demo_record short ok] empty length_numbered_posts
  obtain s' where r: "run demo (log_calls ''A1B2C3D4'' numbered_posts) ''A1B2C3D4'' = Some s'"
    and l: "logs s' = drop 500 (posted numbered_posts)"
    by blast
  from r l have "map_option logs (run demo (log_calls ''A1B2C3D4'' numbered_posts) ''A1B2C3D4'') =
     Some kept_entries"
    by (simp add: drop_numbered_posts)
  with demo_record short ok length_numbered_posts length_kept_entries show ?thesis by blast
qed

subsection \<open>Pushing the policy\<close>

text \<open>
  C4. For an existing session and a request whose \<open>allowed_ips\<close> payload is not a list,
  \<open>set_ips\<close> leaves the registry exactly as it was (so \<open>allowed_ips\<close> keeps its value and
  \<open>ips_updated\<close> is not stamped), and once the admin guard has let the request pass it
  answers 400 "allowed_ips must be a list". When the payload is a list and the guard has
  let the request pass, \<open>allowed_ips\<close> becomes that list, \<open>ips_updated\<close> becomes the clock
  reading, and nothing else in the record changes.
\<close>

theorem set_ips_validates_payload:
  assumes "S sid = Some s"
    and "dict_get (get_json_or_empty req) ''allowed_ips'' (JList []) = Inr ips"
  shows "(\<not> is_list ips \<longrightarrow>
            snd (set_ips S sid req now) = S \<and>
            (require_admin s req = Inr () \<longrightarrow> fst (set_ips S sid req now) = Inl InvalidInput)) \<and>
         (\<forall>xs. ips = JList xs \<and> require_admin s req = Inr () \<longrightarrow>
            set_ips S sid req now =
              (Inr (JObj [(''message'', JStr ''IPs updated''), (''count'', JInt (int (length xs))),
                          (''allowed_ips'', JList xs)]),
               S(sid \<mapsto> s\<lparr>allowed_ips := xs, ips_updated := Some now\<rparr>)))"
  using assms
  by (cases ips) (auto simp: set_ips_def get_session_def split: sum.splits)

text \<open>The sample pushes: the payload \<open>"not-a-list"\<close>, then the list \<open>["10.0.0.0/8"]\<close>.\<close>

theorem set_ips_validates_payload_witness:
  "demo ''A1B2C3D4'' = Some demo_session \<and>
   dict_get (get_json_or_empty bad_ips_request) ''allowed_ips'' (JList []) = Inr (JStr ''not-a-list'') \<and>
   \<not> is_list (JStr ''not-a-list'') \<and>
   require_admin demo_session bad_ips_request = Inr () \<and>
   set_ips demo ''A1B2C3D4'' bad_ips_request ''2024-05-01T10:00:00Z'' = (Inl InvalidInput, demo) \<and>
   dict_get (get_json_or_empty good_ips_request) ''allowed_ips'' (JList []) =
     Inr (JList [JStr ''10.0.0.0/8'']) \<and>
   require_admin demo_session good_ips_request = Inr () \<and>
   set_ips demo ''A1B2C3D4'' good_ips_request ''2024-05-01T10:00:00Z'' =
     (Inr (JObj [(''message'', JStr ''IPs updated''), (''count'', JInt 1),
                 (''allowed_ips'', JList [JStr ''10.0.0.0/8''])]),
      demo(''A1B2C3D4'' \<mapsto> demo_session\<lparr>allowed_ips := [JStr ''10.0.0.0/8''],
             ips_updated := Some ''2024-05-01T10:00:00Z''\<rparr>))"
proof -
  have bad: "dict_get (get_json_or_empty bad_ips_request) ''allowed_ips'' (JList []) =
      Inr (JStr ''not-a-list'')"
    by (simp add: bad_ips_request_def admin_json_request_def get_json_or_empty_def)
  have good: "dict_get (get_json_or_empty good_ips_request) ''allowed_ips'' (JList []) =
      Inr (JList [JStr ''10.0.0.0/8''])"
    by (simp add: good_ips_request_def admin_json_request_def get_json_or_empty_def)
  have nl: "\<not> is_list (JStr ''not-a-list'')" by simp
  have auth_bad: "require_admin demo_session bad_ips_request = Inr ()"
    by (simp add: bad_ips_request_def admin_json_request_ok demo_session_def)
  have auth_good: "require_admin demo_session good_ips_request = Inr ()"
    by (simp add: good_ips_request_def admin_json_request_ok demo_session_def)
  note b = set_ips_validates_payload [of demo "''A1B2C3D4''" demo_session bad_ips_request
      "JStr ''not-a-list''" "''2024-05-01T10:00:00Z''", OF demo_record bad]
  note g = set_ips_validates_payload [of demo "''A1B2C3D4''" demo_session good_ips_request
      "JList [JStr ''10.0.0.0/8'']" "''2024-05-01T10:00:00Z''", OF demo_record good]
  from b nl auth_bad
  have 1: "set_ips demo ''A1B2C3D4'' bad_ips_request ''2024-05-01T10:00:00Z'' = (Inl InvalidInput, demo)"
    by (simp add: prod_eq_iff)
  from g auth_good
  have 2: "set_ips demo ''A1B2C3D4'' good_ips_request ''2024-05-01T10:00:00Z'' =
     (Inr (JObj [(''message'', JStr ''IPs updated''), (''count'', JInt 1),
                 (''allowed_ips'', JList [JStr ''10.0.0.0/8''])]),
      demo(''A1B2C3D4'' \<mapsto> demo_session\<lparr>allowed_ips := [JStr ''10.0.0.0/8''],
             ips_updated := Some ''2024-05-01T10:00:00Z''\<rparr>))"
    by simp
  from demo_record bad nl auth_bad 1 good auth_good 2 show ?thesis by blast
qed

subsection \<open>Ending a session\<close>

lemma end_session_ok:
  "S sid = Some s \<Longrightarrow> require_admin s req = Inr () \<Longrightarrow>
   end_session S sid req now =
     (Inr (JObj [(''message'', JStr ''Session ended''), (''ended_at'', JStr now)]),
      S(sid \<mapsto> s\<lparr>status := ''ended'', ended_at := Some now\<rparr>))"
  by (simp add: end_session_def get_session_def)

text \<open>
  C5. \<open>end_session\<close> answers 404 for an identifier without a record. For an existing
  session, whatever its status, a request that the admin guard lets pass succeeds, sets
  \<open>status\<close> to \<open>ended\<close> and \<open>ended_at\<close> to the clock reading of that call, and reports that
  reading. A further call on the now ended session succeeds in the same way and stamps its
  own, later, clock reading.
\<close>

theorem end_session_always_stamps:
  "(S sid = None \<longrightarrow> end_session S sid req now = (Inl NotFound, S)) \<and>
   (\<forall>s. S sid = Some s \<and> require_admin s req = Inr () \<longrightarrow>
      end_session S sid req now =
        (Inr (JObj [(''message'', JStr ''Session ended''), (''ended_at'', JStr now)]),
         S(sid \<mapsto> s\<lparr>status := ''ended'', ended_at := Some now\<rparr>)) \<and>
      (\<forall>later. end_session (snd (end_session S sid req now)) sid req later =
        (Inr (JObj [(''message'', JStr ''Session ended''), (''ended_at'', JStr later)]),
         S(sid \<mapsto> s\<lparr>status := ''ended'', ended_at := Some later\<rparr>))))"
proof (intro conjI impI allI)
  assume "S sid = None"
  then show "end_session S sid req now = (Inl NotFound, S)"
    by (simp add: end_session_def get_session_def)
next
  fix s assume a: "S sid = Some s \<and> require_admin s req = Inr ()"
  then show "end_session S sid req now =
        (Inr (JObj [(''message'', JStr ''Session ended''), (''ended_at'', JStr now)]),
         S(sid \<mapsto> s\<lparr>status := ''ended'', ended_at := Some now\<rparr>))"
    by (simp add: end_session_ok)
next
  fix s later assume a: "S sid = Some s \<and> require_admin s req = Inr ()"
  let ?s1 = "s\<lparr>status := ''ended'', ended_at := Some now\<rparr>"
  have first: "snd (end_session S sid req now) = S(sid \<mapsto> ?s1)"
    using a by (simp add: end_session_ok)
  have auth: "require_admin ?s1 req = Inr ()"
    using a by (simp add: require_admin_token_only [of ?s1 s])
  have "end_session (S(sid \<mapsto> ?s1)) sid req later =
      (Inr (JObj [(''message'', JStr ''Session ended''), (''ended_at'', JStr later)]),
       (S(sid \<mapsto> ?s1))(sid \<mapsto> ?s1\<lparr>status := ''ended'', ended_at := Some later\<rparr>))"
    by (rule end_session_ok) (simp_all add: auth)
  then show "end_session (snd (end_session S sid req now)) sid req later =
        (Inr (JObj [(''message'', JStr ''Session ended''), (''ended_at'', JStr later)]),
         S(sid \<mapsto> s\<lparr>status := ''ended'', ended_at := Some later\<rparr>))"
    by (simp add: first)
qed

text \<open>The sample calls: an unknown identifier, then two calls on the sample session.\<close>

theorem end_session_always_stamps_witness:
  "demo ''ZZZZZZZZ'' = None \<and>
   end_session demo ''ZZZZZZZZ'' admin_query_request ''2024-05-01T12:00:00Z'' = (Inl NotFound, demo) \<and>
   demo ''A1B2C3D4'' = Some demo_session \<and>
   require_admin demo_session admin_query_request = Inr () \<and>
   end_session demo ''A1B2C3D4'' admin_query_request ''2024-05-01T12:00:00Z'' =
     (Inr (JObj [(''message'', JStr ''Session ended''), (''ended_at'', JStr ''2024-05-01T12:00:00Z'')]),
      demo(''A1B2C3D4'' \<mapsto> demo_session\<lparr>status := ''ended'', ended_at := Some ''2024-05-01T12:00:00Z''\<rparr>)) \<and>
   end_session (snd (end_session demo ''A1B2C3D4'' admin_query_request ''2024-05-01T12:00:00Z''))
       ''A1B2C3D4'' admin_query_request ''2024-05-01T12:30:00Z'' =
     (Inr (JObj [(''message'', JStr ''Session ended''), (''ended_at'', JStr ''2024-05-01T12:30:00Z'')]),
      demo(''A1B2C3D4'' \<mapsto> demo_session\<lparr>status := ''ended'', ended_at := Some ''2024-05-01T12:30:00Z''\<rparr>))"
proof -
  have none: "demo ''ZZZZZZZZ'' = None" by (simp add: sample_defs)
  have auth: "require_admin demo_session admin_query_request = Inr ()"
    by (simp add: admin_query_request_ok demo_session_def)
  note a = end_session_always_stamps [of demo "''ZZZZZZZZ''" admin_query_request
      "''2024-05-01T12:00:00Z''"]
  note b = end_session_always_stamps [of demo "''A1B2C3D4''" admin_query_request
      "''2024-05-01T12:00:00Z''"]
  from a none
  have 1: "end_session demo ''ZZZZZZZZ'' admin_query_request ''2024-05-01T12:00:00Z'' =
      (Inl NotFound, demo)"
    by blast
  from b demo_record auth
  have 2: "end_session demo ''A1B2C3D4'' admin_query_request ''2024-05-01T12:00:00Z'' =
     (Inr (JObj [(''message'', JStr ''Session ended''), (''ended_at'', JStr ''2024-05-01T12:00:00Z'')]),
      demo(''A1B2C3D4'' \<mapsto> demo_session\<lparr>status := ''ended'', ended_at := Some ''2024-05-01T12:00:00Z''\<rparr>))"
    by blast
  from b demo_record auth
  have 3: "end_session (snd (end_session demo ''A1B2C3D4'' admin_query_request ''2024-05-01T12:00:00Z''))
       ''A1B2C3D4'' admin_query_request ''2024-05-01T12:30:00Z'' =
     (Inr (JObj [(''message'', JStr ''Session ended''), (''ended_at'', JStr ''2024-05-01T12:30:00Z'')]),
      demo(''A1B2C3D4'' \<mapsto> demo_session\<lparr>status := ''ended'', ended_at := Some ''2024-05-01T12:30:00Z''\<rparr>))"
    by blast
  from none demo_record auth 1 2 3 show ?thesis by blast
qed

text \<open>
  C6, as claimed: a further \<open>end_session\<close> on an ended session keeps and re-reports the
  original \<open>ended_at\<close>. The code does otherwise. The sample session was ended at 12:00:00;
  a second call at 12:30:00 reports 12:30:00 and leaves 12:30:00 in the record.
\<close>

theorem ended_at_not_kept:
  "map_option status (ended_demo ''A1B2C3D4'') = Some ''ended'' \<and>
   map_option ended_at (ended_demo ''A1B2C3D4'') = Some (Some ''2024-05-01T12:00:00Z'') \<and>
   fst (end_session ended_demo ''A1B2C3D4'' admin_query_request ''2024-05-01T12:30:00Z'') =
     Inr (JObj [(''message'', JStr ''Session ended''), (''ended_at'', JStr ''2024-05-01T12:30:00Z'')]) \<and>
   map_option ended_at
     (snd (end_session ended_demo ''A1B2C3D4'' admin_query_request ''2024-05-01T12:30:00Z'')
        ''A1B2C3D4'') =
     Some (Some ''2024-05-01T12:30:00Z'')"
  by (simp add: ended_demo_record end_session_def get_session_def admin_query_request_ok
      demo_session_def)

text \<open>
  C6, amended: for a session already in status \<open>ended\<close>, a further \<open>end_session\<close> call that
  the admin guard lets pass succeeds, sets \<open>ended_at\<close> to the clock reading of this call
  and reports this new reading; the status stays \<open>ended\<close>.
\<close>

theorem end_session_restamps_ended:
  assumes "S sid = Some s" and "status s = ''ended''" and "require_admin s req = Inr ()"
  shows "fst (end_session S sid req now) =
           Inr (JObj [(''message'', JStr ''Session ended''), (''ended_at'', JStr now)]) \<and>
         map_option ended_at (snd (end_session S sid req now) sid) = Some (Some now) \<and>
         map_option status (snd (end_session S sid req now) sid) = Some ''ended''"
  using assms by (simp add: end_session_def get_session_def)

theorem end_session_restamps_ended_witness:
  "ended_demo ''A1B2C3D4'' =
     Some (demo_session\<lparr>status := ''ended'', ended_at := Some ''2024-05-01T12:00:00Z''\<rparr>) \<and>
   status (demo_session\<lparr>status := ''ended'', ended_at := Some ''2024-05-01T12:00:00Z''\<rparr>) = ''ended'' \<and>
   require_admin (demo_session\<lparr>status := ''ended'', ended_at := Some ''2024-05-01T12:00:00Z''\<rparr>)
     admin_query_request = Inr () \<and>
   fst (end_session ended_demo ''A1B2C3D4'' admin_query_request ''2024-05-01T12:30:00Z'') =
     Inr (JObj [(''message'', JStr ''Session ended''), (''ended_at'', JStr ''2024-05-01T12:30:00Z'')]) \<and>
   map_option ended_at
     (snd (end_session ended_demo ''A1B2C3D4'' admin_query_request ''2024-05-01T12:30:00Z'')
        ''A1B2C3D4'') =
     Some (Some ''2024-05-01T12:30:00Z'') \<and>
   map_option status
     (snd (end_session ended_demo ''A1B2C3D4'' admin_query_request ''2024-05-01T12:30:00Z'')
        ''A1B2C3D4'') =
     Some ''ended''"
proof -
  let ?s = "demo_session\<lparr>status := ''ended'', ended_at := Some ''2024-05-01T12:00:00Z''\<rparr>"
  have st: "status ?s = ''ended''" by simp
  have auth: "require_admin ?s admin_query_request = Inr ()"
    by (simp add: admin_query_request_ok demo_session_def)
  from end_session_restamps_ended [of ended_demo "''A1B2C3D4''" ?s admin_query_request
      "''2024-05-01T12:30:00Z''", OF ended_demo_record st auth] ended_demo_record st auth
  show ?thesis by blast
qed

subsection \<open>Which responses carry the admin token\<close>



lemma entry_json_mentions:
  "mentions ''admin_token'' (entry_json e) =
     list_ex (mentions ''admin_token'') [student_id e, hostname e, event e, detail e]"
  by (simp add: entry_json_def)












text \<open>
  A key \<open>admin_token\<close> inside a value that a student posted comes back in the logs as it was
  sent: that is the client's own text, at depth, and the response still has no field of
  that name.
\<close>

lemma client_key_is_echoed:
  "response_mentions ''admin_token''
     (fst (dispatch GetLogs
        (snd (dispatch PostLog demo ''A1B2C3D4'' echo_post ''2024-05-01T10:00:00Z''))
        ''A1B2C3D4'' admin_query_request ''2024-05-01T10:05:00Z'')) \<and>
   echoes_key ''admin_token''
     (snd (dispatch PostLog demo ''A1B2C3D4'' echo_post ''2024-05-01T10:00:00Z''))
     ''A1B2C3D4'' admin_query_request"
  by (simp add: post_log_def get_logs_def get_session_def demo_record demo_session_def
      echo_post_def auth_defs get_json_or_empty_def build_entry_def append_log_def Let_def
      admin_query_request_def plain_request_def get_or_empty_def tok0_def
      response_mentions_def respond_def entry_json_def echoes_key_def client_values_def)

subsection \<open>An ended session stays ended\<close>

lemma dispatch_other_session: "a \<noteq> b \<Longrightarrow> snd (dispatch r S a req now) b = S b"
  by (cases r)
     (auto simp: set_ips_def get_ips_def get_status_def end_session_def post_log_def
        get_logs_def get_info_def get_session_def
        split: option.splits sum.splits json.splits)

lemma dispatch_keeps_ended:
  "S sid = Some s \<Longrightarrow> status s = ''ended'' \<Longrightarrow>
   map_option status (snd (dispatch r S sid req now) sid) = Some ''ended''"
  by (cases r)
     (auto simp: set_ips_def get_ips_def get_status_def end_session_def post_log_def
        get_logs_def get_info_def get_session_def
        split: option.splits sum.splits json.splits)

lemma step_keeps_ended:
  assumes "S sid = Some s" and "status s = ''ended''" and "\<not> creates_id sid c"
  shows "map_option status (snd (step S c) sid) = Some ''ended''"
proof (cases c)
  case (Create sid' tok code req now)
  with assms show ?thesis
    by (auto simp: create_session_def split: sum.splits)
next
  case (Scoped r sid' req now)
  show ?thesis
  proof (cases "sid' = sid")
    case True
    with assms Scoped show ?thesis by (simp add: dispatch_keeps_ended)
  next
    case False
    with assms Scoped show ?thesis by (simp add: dispatch_other_session)
  qed
qed

text \<open>
  C8, as claimed: no operation, creation included, ever turns an ended session active
  again. \<open>create_session\<close> stores its new record under the identifier the generator
  returns without looking whether the registry holds one there: when the generator
  returns the identifier of the ended sample session, that identifier names an active
  session afterwards.
\<close>

theorem create_reuses_ended_id:
  "map_option status (ended_demo ''A1B2C3D4'') = Some ''ended'' \<and>
   map_option status
     (run ended_demo [Create ''A1B2C3D4'' tok0 ''7777'' plain_request ''2024-05-02T09:00:00Z'']
        ''A1B2C3D4'') = Some ''active''"
  by (simp add: ended_demo_record demo_session_def create_session_def get_json_or_empty_def
      plain_request_def)

text \<open>
  C8, amended: once a session's status is \<open>ended\<close>, it is \<open>ended\<close> after every run of calls
  (creations, and the seven session-scoped routes on any identifiers, successful or not)
  in which no creation is handed that session's identifier by the generator.
\<close>

theorem ended_stays_ended_without_id_reuse:
  assumes "S sid = Some s" and "status s = ''ended''"
    and "list_all (\<lambda>c. \<not> creates_id sid c) cs"
  shows "map_option status (run S cs sid) = Some ''ended''"
  using assms
proof (induction cs arbitrary: S s)
  case Nil
  then show ?case by simp
next
  case (Cons c cs)
  from Cons.prems have "map_option status (snd (step S c) sid) = Some ''ended''"
    by (intro step_keeps_ended [of S sid s c]) simp_all
  then obtain s1 where s1: "snd (step S c) sid = Some s1" and e1: "status s1 = ''ended''"
    by auto
  from Cons.prems(3) have "list_all (\<lambda>c. \<not> creates_id sid c) cs" by simp
  with s1 e1 have "map_option status (run (snd (step S c)) cs sid) = Some ''ended''"
    by (rule Cons.IH)
  then show ?case by simp
qed

text \<open>The sample run: every route on the ended session, and a creation under another id.\<close>

theorem ended_stays_ended_without_id_reuse_witness:
  "ended_demo ''A1B2C3D4'' =
     Some (demo_session\<lparr>status := ''ended'', ended_at := Some ''2024-05-01T12:00:00Z''\<rparr>) \<and>
   status (demo_session\<lparr>status := ''ended'', ended_at := Some ''2024-05-01T12:00:00Z''\<rparr>) = ''ended'' \<and>
   list_all (\<lambda>c. \<not> creates_id ''A1B2C3D4'' c) after_end_calls \<and>
   map_option status (run ended_demo after_end_calls ''A1B2C3D4'') = Some ''ended''"
proof -
  let ?s = "demo_session\<lparr>status := ''ended'', ended_at := Some ''2024-05-01T12:00:00Z''\<rparr>"
  have st: "status ?s = ''ended''" by simp
  have nc: "list_all (\<lambda>c. \<not> creates_id ''A1B2C3D4'' c) after_end_calls"
    by (simp add: after_end_calls_def)
  from ended_stays_ended_without_id_reuse [of ended_demo "''A1B2C3D4''" ?s after_end_calls,
      OF ended_demo_record st nc] ended_demo_record st nc
  show ?thesis by blast
qed

subsection \<open>Sessions do not interfere\<close>

text \<open>
  C9. For distinct identifiers \<open>a\<close> and \<open>b\<close>, a call of any session-scoped route on \<open>a\<close>
  leaves the registry's entry for \<open>b\<close> as it was; and replacing the entry for \<open>b\<close> by
  anything (another record, or none) before the call changes neither the response nor
  what the call does to the rest of the registry.
\<close>

theorem session_isolation:
  assumes "a \<noteq> b"
  shows "snd (dispatch r S a req now) b = S b \<and>
         dispatch r (S(b := x)) a req now =
           (fst (dispatch r S a req now), (snd (dispatch r S a req now))(b := x))"
  using assms
  by (cases r)
     (auto simp: set_ips_def get_ips_def get_status_def end_session_def post_log_def
        get_logs_def get_info_def get_session_def fun_upd_twist
        split: option.splits sum.splits json.splits)

text \<open>The sample call: ending the sample session beside a second session.\<close>

theorem session_isolation_witness:
  "''A1B2C3D4'' \<noteq> ''B0B0B0B0'' \<and>
   snd (dispatch EndSession demo ''A1B2C3D4'' admin_query_request ''2024-05-01T12:00:00Z'')
     ''B0B0B0B0'' = demo ''B0B0B0B0'' \<and>
   dispatch EndSession (demo(''B0B0B0B0'' := Some (demo_session\<lparr>session_id := ''B0B0B0B0''\<rparr>)))
       ''A1B2C3D4'' admin_query_request ''2024-05-01T12:00:00Z'' =
     (fst (dispatch EndSession demo ''A1B2C3D4'' admin_query_request ''2024-05-01T12:00:00Z''),
      (snd (dispatch EndSession demo ''A1B2C3D4'' admin_query_request ''2024-05-01T12:00:00Z''))
        (''B0B0B0B0'' := Some (demo_session\<lparr>session_id := ''B0B0B0B0''\<rparr>)))"
proof -
  have ne: "''A1B2C3D4'' \<noteq> ''B0B0B0B0''" by simp
  from session_isolation [OF ne, of EndSession demo admin_query_request "''2024-05-01T12:00:00Z''"
      "Some (demo_session\<lparr>session_id := ''B0B0B0B0''\<rparr>)"] ne
  show ?thesis by blast
qed

subsection \<open>Existence precedes every other check\<close>

text \<open>
  C10. For each of the seven session-scoped routes and an identifier with no record, the
  request ends with 404 "Session not found" whatever credentials, body and content type
  it carries (so never with 403), and the registry is as before.
\<close>

theorem unknown_session_not_found:
  "S sid = None \<Longrightarrow> dispatch r S sid req now = (Inl NotFound, S)"
  by (cases r) (simp_all add: set_ips_def get_ips_def get_status_def end_session_def
      post_log_def get_logs_def get_info_def get_session_def)

text \<open>The sample call: an unknown identifier with a valid admin credential of another session.\<close>

theorem unknown_session_not_found_witness:
  "demo ''ZZZZZZZZ'' = None \<and>
   dispatch GetInfo demo ''ZZZZZZZZ'' admin_query_request ''2024-05-01T10:00:00Z'' =
     (Inl NotFound, demo)"
proof -
  have h: "demo ''ZZZZZZZZ'' = None" by (simp add: sample_defs)
  show ?thesis
    using h unknown_session_not_found [of demo "''ZZZZZZZZ''" GetInfo admin_query_request
        "''2024-05-01T10:00:00Z''"]
    by simp
qed

end
